theory Spec2Isabelle
  imports Main
begin

section \<open>The abstract C machine used by \<open>pointer_traps.c\<close>\<close>

text \<open>
  The file \<open>01-embedded-c-fundamentals/pointer_traps.c\<close> consists of ten small
  functions and one global.  Each function is embedded as a HOL function on an explicit
  machine state.  Objects live either in static storage or in a stack frame; a pointer
  names an object and an element index inside it, as the C standard describes pointer
  arithmetic (in array elements, not in bytes).  A run ends in \<open>Inr\<close> with its result,
  or in \<open>Inl\<close> with the reason it has none.
\<close>

subsection \<open>Types, values and errors\<close>

datatype ctype =
    TInt
  | TUInt32
  | TVoid
  | TFunc
  | TPtr ctype
  | TArr ctype nat
  | TConst ctype
  | TVolatile ctype

text \<open>The two functions of the file whose address is taken.\<close>

datatype func = Fhandler1 | Fhandler2

datatype loc = Static nat | Stack nat nat

datatype ptr =
    Null
  | Obj loc nat
  | Hw nat
  | Fun func

text \<open>
  \<open>VIndet\<close> is the indeterminate value of an automatic object declared without an
  initialiser.  The values of type \<open>int\<close> are kept as mathematical integers: the file
  performs no arithmetic on them, and its constants 5, 10, 15, 20, 30 and 100 fit every
  conforming \<open>int\<close>.
\<close>

datatype val = VInt int | VPtr ptr | VIndet

text \<open>
  \<open>Rejected\<close>: the construct violates a constraint of the language and does not
  compile.  \<open>Undefined\<close>: the construct compiles and its execution is undefined
  behaviour.  \<open>Unmodelled\<close>: an access to an absolute hardware address, whose effect
  lies outside the program.
\<close>

datatype err = Rejected | Undefined | Unmodelled

type_synonym 'a res = "err + 'a"

definition bnd :: "'a res \<Rightarrow> ('a \<Rightarrow> 'b res) \<Rightarrow> 'b res" where
  "bnd m f = (case m of Inl e \<Rightarrow> Inl e | Inr x \<Rightarrow> f x)"

text \<open>
  The sizes of \<open>int\<close> and of object pointers are implementation-defined, and so is
  the type \<open>size_t\<close> of a \<open>sizeof\<close> expression, which is \<open>unsigned long\<close> on some
  implementations and another unsigned type on others.  They are parameters of the
  model.
\<close>

record platform =
  sizeof_int :: nat
  sizeof_ptr :: nat
  size_t_is_ulong :: bool

type_synonym obj = "ctype \<times> val list"

record state =
  statics :: "obj list"
  stack :: "obj list list"
  stdout :: string

type_synonym lval = "ctype \<times> ptr"
type_synonym rval = "ctype \<times> val"

subsection \<open>Static properties of types\<close>

fun unqual :: "ctype \<Rightarrow> ctype" where
  "unqual (TConst t) = unqual t"
| "unqual (TVolatile t) = unqual t"
| "unqual t = t"

text \<open>A modifiable lvalue: not const-qualified, not an array, not incomplete.\<close>

fun modifiable :: "ctype \<Rightarrow> bool" where
  "modifiable (TConst t) = False"
| "modifiable (TVolatile t) = modifiable t"
| "modifiable (TArr t n) = False"
| "modifiable TVoid = False"
| "modifiable TFunc = False"
| "modifiable t = True"

fun elem_type :: "ctype \<Rightarrow> ctype" where
  "elem_type (TArr t n) = t"
| "elem_type t = t"

text \<open>\<open>sizeof\<close>; \<open>void\<close> and function types have no size.\<close>

fun sizeof :: "platform \<Rightarrow> ctype \<Rightarrow> nat option" where
  "sizeof pf TInt = Some (sizeof_int pf)"
| "sizeof pf TUInt32 = Some 4"
| "sizeof pf TVoid = None"
| "sizeof pf TFunc = None"
| "sizeof pf (TPtr t) = Some (sizeof_ptr pf)"
| "sizeof pf (TArr t n) = map_option (\<lambda>k. n * k) (sizeof pf t)"
| "sizeof pf (TConst t) = sizeof pf t"
| "sizeof pf (TVolatile t) = sizeof pf t"

subsection \<open>Memory\<close>

fun lookup :: "state \<Rightarrow> loc \<Rightarrow> obj option" where
  "lookup s (Static i) = (if i < length (statics s) then Some (statics s ! i) else None)"
| "lookup s (Stack f i) =
     (if f < length (stack s)
      then (if i < length (stack s ! f) then Some (stack s ! f ! i) else None)
      else None)"

fun update :: "state \<Rightarrow> loc \<Rightarrow> obj \<Rightarrow> state" where
  "update s (Static i) ob = s\<lparr>statics := (statics s)[i := ob]\<rparr>"
| "update s (Stack f i) ob = s\<lparr>stack := (stack s)[f := (stack s ! f)[i := ob]]\<rparr>"

text \<open>
  A read through an lvalue of type \<open>t\<close>.  Reading through a null pointer, through a
  pointer to an object whose lifetime has ended, past the end of the object, with the
  wrong type, or reading an indeterminate value is undefined.
\<close>

definition load :: "ctype \<Rightarrow> ptr \<Rightarrow> state \<Rightarrow> val res" where
  "load t p s =
     (case p of
        Obj l i \<Rightarrow>
          (case lookup s l of
             None \<Rightarrow> Inl Undefined
           | Some (dt, cs) \<Rightarrow>
               if unqual t = unqual (elem_type dt) \<and> i < length cs
               then (case cs ! i of VIndet \<Rightarrow> Inl Undefined | v \<Rightarrow> Inr v)
               else Inl Undefined)
      | Hw a \<Rightarrow> Inl Unmodelled
      | _ \<Rightarrow> Inl Undefined)"

text \<open>A write through an lvalue of type \<open>t\<close>; writing to an object defined \<open>const\<close> is undefined.\<close>

definition store :: "ctype \<Rightarrow> ptr \<Rightarrow> val \<Rightarrow> state \<Rightarrow> state res" where
  "store t p v s =
     (case p of
        Obj l i \<Rightarrow>
          (case lookup s l of
             None \<Rightarrow> Inl Undefined
           | Some (dt, cs) \<Rightarrow>
               if unqual t = unqual (elem_type dt) \<and> i < length cs
               then (case dt of
                       TConst u \<Rightarrow> Inl Undefined
                     | _ \<Rightarrow> Inr (update s l (dt, cs[i := v])))
               else Inl Undefined)
      | Hw a \<Rightarrow> Inl Unmodelled
      | _ \<Rightarrow> Inl Undefined)"

subsection \<open>Frames and declarations\<close>

definition enter :: "state \<Rightarrow> state" where
  "enter s = s\<lparr>stack := stack s @ [[]]\<rparr>"

definition leave :: "state \<Rightarrow> state" where
  "leave s = s\<lparr>stack := butlast (stack s)\<rparr>"

text \<open>
  A declaration of an automatic object adds it to the innermost frame and yields the
  declared identifier as an lvalue.
\<close>

definition decl :: "ctype \<Rightarrow> val list \<Rightarrow> state \<Rightarrow> lval \<times> state" where
  "decl t vs s =
     (let fr = (if stack s = [] then [] else last (stack s))
      in ((t, Obj (Stack (length (stack s) - 1) (length fr)) 0),
          s\<lparr>stack := butlast (stack s) @ [fr @ [(t, vs)]]\<rparr>))"

definition call_void :: "(state \<Rightarrow> state res) \<Rightarrow> state \<Rightarrow> state res" where
  "call_void body s = bnd (body (enter s)) (\<lambda>s'. Inr (leave s'))"

text \<open>
  The value of a pointer becomes indeterminate when the object it points to reaches the
  end of its lifetime.
\<close>

definition expire :: "state \<Rightarrow> rval \<Rightarrow> rval" where
  "expire s rv =
     (case snd rv of
        VPtr (Obj l i) \<Rightarrow>
          (case lookup s l of
             None \<Rightarrow> (fst rv, VIndet)
           | Some ob \<Rightarrow> rv)
      | _ \<Rightarrow> rv)"

text \<open>
  A call of a function that returns a value.  The frame of the callee is popped before
  the caller receives the value, so a returned pointer to an object of that frame
  arrives indeterminate.  (A return value is the only pointer of the file that leaves
  the frame of the object it points to.)
\<close>

definition call_val :: "(state \<Rightarrow> (rval \<times> state) res) \<Rightarrow> state \<Rightarrow> (rval \<times> state) res" where
  "call_val body s =
     bnd (body (enter s)) (\<lambda>(v, s'). Inr (expire (leave s') v, leave s'))"

subsection \<open>Expressions\<close>

text \<open>\<open>&e\<close>\<close>

definition addr_of :: "lval \<Rightarrow> rval" where
  "addr_of lv = (TPtr (fst lv), VPtr (snd lv))"

text \<open>
  The value of an lvalue expression: an array decays to a pointer to its first element,
  anything else is read from memory.
\<close>

definition rvalue :: "lval \<Rightarrow> state \<Rightarrow> rval res" where
  "rvalue lv s =
     (case unqual (fst lv) of
        TArr et n \<Rightarrow> Inr (TPtr et, VPtr (snd lv))
      | _ \<Rightarrow> bnd (load (fst lv) (snd lv) s) (\<lambda>v. Inr (unqual (fst lv), v)))"

text \<open>\<open>*e\<close>; a pointer to \<open>void\<close> cannot be dereferenced.\<close>

definition deref :: "rval \<Rightarrow> lval res" where
  "deref rv =
     (case fst rv of
        TPtr pt \<Rightarrow>
          (if unqual pt = TVoid then Inl Rejected
           else (case snd rv of VPtr p \<Rightarrow> Inr (pt, p) | _ \<Rightarrow> Inl Undefined))
      | _ \<Rightarrow> Inl Rejected)"

text \<open>
  \<open>lv = v\<close>; the left operand must be a modifiable lvalue.  (The type of the right
  operand is not checked: every assignment of the file is well-typed.)
\<close>

definition assign :: "lval \<Rightarrow> val \<Rightarrow> state \<Rightarrow> state res" where
  "assign lv v s = (if modifiable (fst lv) then store (fst lv) (snd lv) v s else Inl Rejected)"

text \<open>\<open>(t) e\<close> between pointer types keeps the address.\<close>

definition cast :: "ctype \<Rightarrow> rval \<Rightarrow> rval" where
  "cast t rv = (t, snd rv)"

text \<open>
  \<open>e + n\<close> on a pointer: \<open>n\<close> elements further in the same object, at most one past its
  end.
\<close>

definition ptr_add :: "rval \<Rightarrow> nat \<Rightarrow> state \<Rightarrow> rval res" where
  "ptr_add rv n s =
     (case fst rv of
        TPtr pt \<Rightarrow>
          (if unqual pt = TVoid \<or> unqual pt = TFunc then Inl Rejected
           else (case snd rv of
                   VPtr (Obj l i) \<Rightarrow>
                     (case lookup s l of
                        None \<Rightarrow> Inl Undefined
                      | Some (dt, cs) \<Rightarrow>
                          if i + n \<le> length cs then Inr (TPtr pt, VPtr (Obj l (i + n)))
                          else Inl Undefined)
                 | _ \<Rightarrow> Inl Undefined))
      | _ \<Rightarrow> Inl Rejected)"

subsection \<open>Console output\<close>

definition newline :: char where
  "newline = CHR 0x0A"

definition digit :: "nat \<Rightarrow> char" where
  "digit d = ''0123456789'' ! d"

function show_nat :: "nat \<Rightarrow> string" where
  "show_nat n = (if n < 10 then [digit n] else show_nat (n div 10) @ [digit (n mod 10)])"
  by pat_completeness auto
termination
  by (relation "measure id") auto

definition show_int :: "int \<Rightarrow> string" where
  "show_int i = (if i < 0 then CHR ''-'' # show_nat (nat (- i)) else show_nat (nat i))"

text \<open>\<open>printf("%d\n", e)\<close>\<close>

definition printf_d :: "rval \<Rightarrow> state \<Rightarrow> state res" where
  "printf_d rv s =
     (case snd rv of
        VInt i \<Rightarrow> Inr (s\<lparr>stdout := stdout s @ show_int i @ [newline]\<rparr>)
      | _ \<Rightarrow> Inl Undefined)"

text \<open>
  \<open>printf("%lu\n", sizeof e)\<close>, for an operand of type \<open>t\<close>.  The conversion
  \<open>%lu\<close> takes an \<open>unsigned long\<close> argument; the argument passed has type
  \<open>size_t\<close>.  Where the two are the same type the size is written in decimal; where
  they are not the call is undefined.
\<close>

definition printf_lu_sizeof :: "platform \<Rightarrow> ctype \<Rightarrow> state \<Rightarrow> state res" where
  "printf_lu_sizeof pf t s =
     (case sizeof pf t of
        None \<Rightarrow> Inl Rejected
      | Some n \<Rightarrow>
          if size_t_is_ulong pf
          then Inr (s\<lparr>stdout := stdout s @ show_nat n @ [newline]\<rparr>)
          else Inl Undefined)"

text \<open>\<open>printf\<close> of a literal without conversions\<close>

definition printf_lit :: "string \<Rightarrow> state \<Rightarrow> state res" where
  "printf_lit str s = Inr (s\<lparr>stdout := stdout s @ str\<rparr>)"

section \<open>The program\<close>

subsection \<open>Static storage\<close>

text \<open>
  Two objects have static storage duration: the block-scope \<open>static int x = 100\<close> of
  \<open>update_pointer\<close>, and the file-scope pointer \<open>reg\<close>, initialised with the address
  \<open>REG_ADDR\<close> converted to \<open>volatile uint32_t *\<close>.
\<close>

definition REG_ADDR :: nat where
  "REG_ADDR = 0x40000000"

definition update_pointer_x :: lval where
  "update_pointer_x = (TInt, Obj (Static 0) 0)"

definition reg :: lval where
  "reg = (TPtr (TVolatile TUInt32), Obj (Static 1) 0)"

definition program_start :: state where
  "program_start =
     \<lparr>statics = [(TInt, [VInt 100]), (TPtr (TVolatile TUInt32), [VPtr (Hw REG_ADDR)])],
      stack = [],
      stdout = []\<rparr>"

subsection \<open>1. \<open>uninitialized_pointer_demo\<close>\<close>

text \<open>\<open>int *ptr;\<close> and nothing else: the dereference is a comment.\<close>

definition uninitialized_pointer_demo_body :: "state \<Rightarrow> state res" where
  "uninitialized_pointer_demo_body s =
     (let (ptr, s1) = decl (TPtr TInt) [VIndet] s
      in Inr s1)"

definition uninitialized_pointer_demo :: "state \<Rightarrow> state res" where
  "uninitialized_pointer_demo = call_void uninitialized_pointer_demo_body"

subsection \<open>2. \<open>null_pointer_demo\<close>\<close>

definition null_pointer_demo_body :: "state \<Rightarrow> state res" where
  "null_pointer_demo_body s =
     (let (ptr, s1) = decl (TPtr TInt) [VPtr Null] s
      in bnd (rvalue ptr s1) (\<lambda>p.
           if snd p \<noteq> VPtr Null
           then bnd (deref p) (\<lambda>target. assign target (VInt 10) s1)
           else Inr s1))"

definition null_pointer_demo :: "state \<Rightarrow> state res" where
  "null_pointer_demo = call_void null_pointer_demo_body"

subsection \<open>3. \<open>dangling_pointer_demo\<close>\<close>

text \<open>\<open>int local = 10; return &local;\<close>\<close>

definition dangling_pointer_demo_body :: "state \<Rightarrow> (rval \<times> state) res" where
  "dangling_pointer_demo_body s =
     (let (local, s1) = decl TInt [VInt 10] s
      in Inr (addr_of local, s1))"

definition dangling_pointer_demo :: "state \<Rightarrow> (rval \<times> state) res" where
  "dangling_pointer_demo = call_val dangling_pointer_demo_body"

subsection \<open>4. \<open>const_pointer_demo\<close>\<close>

text \<open>
  \<open>const int *p1\<close> is a pointer to \<open>const int\<close>; \<open>int *const p2\<close> is a \<open>const\<close>
  pointer to \<open>int\<close>.  The executed statements are \<open>p1 = &b;\<close> and \<open>*p2 = 15;\<close>.
\<close>

definition const_pointer_demo_body :: "state \<Rightarrow> state res" where
  "const_pointer_demo_body s =
     (let (a, s1) = decl TInt [VInt 10] s;
          (b, s2) = decl TInt [VInt 20] s1;
          (p1, s3) = decl (TPtr (TConst TInt)) [snd (addr_of a)] s2;
          (p2, s4) = decl (TConst (TPtr TInt)) [snd (addr_of a)] s3
      in bnd (assign p1 (snd (addr_of b)) s4) (\<lambda>s5.
         bnd (rvalue p2 s5) (\<lambda>p2v.
         bnd (deref p2v) (\<lambda>target.
         assign target (VInt 15) s5))))"

definition const_pointer_demo :: "state \<Rightarrow> state res" where
  "const_pointer_demo = call_void const_pointer_demo_body"

subsection \<open>5. \<open>pointer_arithmetic_demo\<close>\<close>

definition pointer_arithmetic_demo_body :: "state \<Rightarrow> state res" where
  "pointer_arithmetic_demo_body s =
     (let (arr, s1) = decl (TArr TInt 3) [VInt 10, VInt 20, VInt 30] s
      in bnd (rvalue arr s1) (\<lambda>first.
         let (p, s2) = decl (TPtr TInt) [snd first] s1
         in bnd (rvalue p s2) (\<lambda>pv.
            bnd (ptr_add pv 1 s2) (\<lambda>q.
            bnd (deref q) (\<lambda>target.
            bnd (rvalue target s2) (\<lambda>v.
            printf_d v s2))))))"

definition pointer_arithmetic_demo :: "state \<Rightarrow> state res" where
  "pointer_arithmetic_demo = call_void pointer_arithmetic_demo_body"

subsection \<open>6. \<open>void_pointer_demo\<close>\<close>

text \<open>The executed output statement is \<open>printf("%d\n", *(int *)vp);\<close>.\<close>

definition void_pointer_demo_body :: "state \<Rightarrow> state res" where
  "void_pointer_demo_body s =
     (let (a, s1) = decl TInt [VInt 10] s;
          (vp, s2) = decl (TPtr TVoid) [snd (cast (TPtr TVoid) (addr_of a))] s1
      in bnd (rvalue vp s2) (\<lambda>vpv.
         bnd (deref (cast (TPtr TInt) vpv)) (\<lambda>target.
         bnd (rvalue target s2) (\<lambda>v.
         printf_d v s2))))"

definition void_pointer_demo :: "state \<Rightarrow> state res" where
  "void_pointer_demo = call_void void_pointer_demo_body"

subsection \<open>7. \<open>handler1\<close>, \<open>handler2\<close>, \<open>function_pointer_demo\<close>\<close>

definition handler1 :: "state \<Rightarrow> state res" where
  "handler1 = call_void (printf_lit (''Handler 1'' @ [newline]))"

definition handler2 :: "state \<Rightarrow> state res" where
  "handler2 = call_void (printf_lit (''Handler 2'' @ [newline]))"

fun code_of :: "func \<Rightarrow> state \<Rightarrow> state res" where
  "code_of Fhandler1 = handler1"
| "code_of Fhandler2 = handler2"

text \<open>A call through a pointer to function.\<close>

definition call_ptr :: "rval \<Rightarrow> state \<Rightarrow> state res" where
  "call_ptr rv s =
     (case snd rv of
        VPtr (Fun f) \<Rightarrow> code_of f s
      | _ \<Rightarrow> Inl Undefined)"

definition function_pointer_demo_body :: "state \<Rightarrow> state res" where
  "function_pointer_demo_body s =
     (let (fp, s1) = decl (TPtr TFunc) [VIndet] s
      in bnd (assign fp (VPtr (Fun Fhandler1)) s1) (\<lambda>s2.
         bnd (rvalue fp s2) (\<lambda>f1.
         bnd (call_ptr f1 s2) (\<lambda>s3.
         bnd (assign fp (VPtr (Fun Fhandler2)) s3) (\<lambda>s4.
         bnd (rvalue fp s4) (\<lambda>f2.
         call_ptr f2 s4))))))"

definition function_pointer_demo :: "state \<Rightarrow> state res" where
  "function_pointer_demo = call_void function_pointer_demo_body"

subsection \<open>8. \<open>array_pointer_demo\<close>\<close>

text \<open>
  \<open>sizeof\<close> does not evaluate its operand; it depends on the operand's type only:
  \<open>int[5]\<close> for \<open>arr\<close> and \<open>int *\<close> for \<open>p\<close>.
\<close>

definition array_pointer_demo_body :: "platform \<Rightarrow> state \<Rightarrow> state res" where
  "array_pointer_demo_body pf s =
     (let (arr, s1) = decl (TArr TInt 5) (replicate 5 VIndet) s
      in bnd (rvalue arr s1) (\<lambda>first.
         let (p, s2) = decl (TPtr TInt) [snd first] s1
         in bnd (printf_lu_sizeof pf (fst arr) s2) (\<lambda>s3.
            printf_lu_sizeof pf (fst p) s3)))"

definition array_pointer_demo :: "platform \<Rightarrow> state \<Rightarrow> state res" where
  "array_pointer_demo pf = call_void (array_pointer_demo_body pf)"

subsection \<open>9. \<open>update_pointer\<close>, \<open>double_pointer_demo\<close>\<close>

text \<open>The parameter \<open>pp\<close> is an object of the callee's frame; the body is \<open>*pp = &x;\<close>.\<close>

definition update_pointer_body :: "val \<Rightarrow> state \<Rightarrow> state res" where
  "update_pointer_body arg s =
     (let (pp, s1) = decl (TPtr (TPtr TInt)) [arg] s
      in bnd (rvalue pp s1) (\<lambda>ppv.
         bnd (deref ppv) (\<lambda>target.
         assign target (snd (addr_of update_pointer_x)) s1)))"

definition update_pointer :: "val \<Rightarrow> state \<Rightarrow> state res" where
  "update_pointer arg = call_void (update_pointer_body arg)"

definition double_pointer_demo_body :: "state \<Rightarrow> state res" where
  "double_pointer_demo_body s =
     (let (p, s1) = decl (TPtr TInt) [VPtr Null] s
      in update_pointer (snd (addr_of p)) s1)"

definition double_pointer_demo :: "state \<Rightarrow> state res" where
  "double_pointer_demo = call_void double_pointer_demo_body"

section \<open>Running the functions\<close>



lemmas machine_defs = bnd_def call_void_def call_val_def expire_def enter_def leave_def decl_def
  addr_of_def rvalue_def deref_def assign_def cast_def ptr_add_def load_def store_def
  printf_d_def printf_lu_sizeof_def printf_lit_def butlast_append nth_append

subsection \<open>The state at the end of each function body\<close>

text \<open>
  Each lemma gives the state in which the body of a function ends, just before its frame
  is popped, for a call made in an arbitrary state \<open>s\<close>.
\<close>

lemma uninitialized_pointer_demo_body_run:
  "uninitialized_pointer_demo_body (enter s) =
     Inr (s\<lparr>stack := stack s @ [[(TPtr TInt, [VIndet])]]\<rparr>)"
  by (simp add: uninitialized_pointer_demo_body_def machine_defs)

lemma null_pointer_demo_body_run:
  "null_pointer_demo_body (enter s) =
     Inr (s\<lparr>stack := stack s @ [[(TPtr TInt, [VPtr Null])]]\<rparr>)"
  by (simp add: null_pointer_demo_body_def machine_defs)

lemma dangling_pointer_demo_body_run:
  "dangling_pointer_demo_body (enter s) =
     Inr ((TPtr TInt, VPtr (Obj (Stack (length (stack s)) 0) 0)),
          s\<lparr>stack := stack s @ [[(TInt, [VInt 10])]]\<rparr>)"
  by (simp add: dangling_pointer_demo_body_def machine_defs)

lemma const_pointer_demo_body_run:
  "const_pointer_demo_body (enter s) =
     Inr (s\<lparr>stack := stack s @
            [[(TInt, [VInt 15]),
              (TInt, [VInt 20]),
              (TPtr (TConst TInt), [VPtr (Obj (Stack (length (stack s)) 1) 0)]),
              (TConst (TPtr TInt), [VPtr (Obj (Stack (length (stack s)) 0) 0)])]]\<rparr>)"
  by (simp add: const_pointer_demo_body_def machine_defs)

lemma pointer_arithmetic_demo_body_run:
  "pointer_arithmetic_demo_body (enter s) =
     Inr (s\<lparr>stack := stack s @
            [[(TArr TInt 3, [VInt 10, VInt 20, VInt 30]),
              (TPtr TInt, [VPtr (Obj (Stack (length (stack s)) 0) 0)])]],
            stdout := stdout s @ ''20'' @ [newline]\<rparr>)"
  by (simp add: pointer_arithmetic_demo_body_def machine_defs show_int_def digit_def)

lemma void_pointer_demo_body_run:
  "void_pointer_demo_body (enter s) =
     Inr (s\<lparr>stack := stack s @
            [[(TInt, [VInt 10]),
              (TPtr TVoid, [VPtr (Obj (Stack (length (stack s)) 0) 0)])]],
            stdout := stdout s @ ''10'' @ [newline]\<rparr>)"
  by (simp add: void_pointer_demo_body_def machine_defs show_int_def digit_def)

lemma handler1_run:
  "handler1 s = Inr (s\<lparr>stdout := stdout s @ ''Handler 1'' @ [newline]\<rparr>)"
  by (simp add: handler1_def machine_defs)

lemma handler2_run:
  "handler2 s = Inr (s\<lparr>stdout := stdout s @ ''Handler 2'' @ [newline]\<rparr>)"
  by (simp add: handler2_def machine_defs)

lemma function_pointer_demo_body_run:
  "function_pointer_demo_body (enter s) =
     Inr (s\<lparr>stack := stack s @ [[(TPtr TFunc, [VPtr (Fun Fhandler2)])]],
            stdout := stdout s @ ''Handler 1'' @ [newline] @ ''Handler 2'' @ [newline]\<rparr>)"
  by (simp add: function_pointer_demo_body_def call_ptr_def handler1_run handler2_run
      machine_defs)

lemma array_pointer_demo_body_run:
  "size_t_is_ulong pf \<Longrightarrow>
   array_pointer_demo_body pf (enter s) =
     Inr (s\<lparr>stack := stack s @
            [[(TArr TInt 5, [VIndet, VIndet, VIndet, VIndet, VIndet]),
              (TPtr TInt, [VPtr (Obj (Stack (length (stack s)) 0) 0)])]],
            stdout := stdout s @ show_nat (5 * sizeof_int pf) @ [newline]
                        @ show_nat (sizeof_ptr pf) @ [newline]\<rparr>)"
  by (simp add: array_pointer_demo_body_def machine_defs numeral_eq_Suc
      del: show_nat.simps)

lemma double_pointer_demo_body_run:
  "double_pointer_demo_body (enter s) =
     Inr (s\<lparr>stack := stack s @ [[(TPtr TInt, [VPtr (Obj (Static 0) 0)])]]\<rparr>)"
  by (simp add: double_pointer_demo_body_def update_pointer_def update_pointer_body_def
      update_pointer_x_def machine_defs)

subsection \<open>The effect of each call\<close>

lemma uninitialized_pointer_demo_run: "uninitialized_pointer_demo s = Inr s"
  by (simp add: uninitialized_pointer_demo_def call_void_def
      uninitialized_pointer_demo_body_run bnd_def leave_def)

lemma null_pointer_demo_run: "null_pointer_demo s = Inr s"
  by (simp add: null_pointer_demo_def call_void_def null_pointer_demo_body_run
      bnd_def leave_def)

lemma dangling_pointer_demo_run:
  "dangling_pointer_demo s = Inr ((TPtr TInt, VIndet), s)"
  by (simp add: dangling_pointer_demo_def call_val_def dangling_pointer_demo_body_run
      bnd_def leave_def expire_def)

lemma const_pointer_demo_run: "const_pointer_demo s = Inr s"
  by (simp add: const_pointer_demo_def call_void_def const_pointer_demo_body_run
      bnd_def leave_def)

lemma pointer_arithmetic_demo_run:
  "pointer_arithmetic_demo s = Inr (s\<lparr>stdout := stdout s @ ''20'' @ [newline]\<rparr>)"
  by (simp add: pointer_arithmetic_demo_def call_void_def pointer_arithmetic_demo_body_run
      bnd_def leave_def)

lemma void_pointer_demo_run:
  "void_pointer_demo s = Inr (s\<lparr>stdout := stdout s @ ''10'' @ [newline]\<rparr>)"
  by (simp add: void_pointer_demo_def call_void_def void_pointer_demo_body_run
      bnd_def leave_def)

lemma function_pointer_demo_run:
  "function_pointer_demo s =
     Inr (s\<lparr>stdout := stdout s @ ''Handler 1'' @ [newline] @ ''Handler 2'' @ [newline]\<rparr>)"
  by (simp add: function_pointer_demo_def call_void_def function_pointer_demo_body_run
      bnd_def leave_def)


lemma array_pointer_demo_run:
  "size_t_is_ulong pf \<Longrightarrow>
   array_pointer_demo pf s =
     Inr (s\<lparr>stdout := stdout s @ show_nat (5 * sizeof_int pf) @ [newline]
                        @ show_nat (sizeof_ptr pf) @ [newline]\<rparr>)"
  by (simp add: array_pointer_demo_def call_void_def array_pointer_demo_body_run
      bnd_def leave_def del: show_nat.simps)

lemma double_pointer_demo_run: "double_pointer_demo s = Inr s"
  by (simp add: double_pointer_demo_def call_void_def double_pointer_demo_body_run
      bnd_def leave_def)



section \<open>The claims\<close>

subsection \<open>C1: the contract of the catalog, and the dangling pointer\<close>

text \<open>
  C1 as stated: every demonstration returns nothing and executes only its corrected line;
  in particular \<open>dangling_pointer_demo\<close> does not return the address of a stack-scoped
  local.  This fails on the code.  Called at program start, the body of
  \<open>dangling_pointer_demo\<close> declares \<open>local = 10\<close> as object 0 of frame 0, and the
  operand of its \<open>return\<close> is exactly the address of that object: the unsafe line is
  executed.  The function has return type \<open>int *\<close>; the lifetime of \<open>local\<close> ends
  with the call, so what the caller receives is an indeterminate pointer, and
  dereferencing it is undefined.
\<close>

theorem dangling_pointer_demo_returns_stack_address:
  "dangling_pointer_demo_body (enter program_start) =
     Inr ((TPtr TInt, VPtr (Obj (Stack 0 0) 0)),
          program_start\<lparr>stack := [[(TInt, [VInt 10])]]\<rparr>)
   \<and> lookup (program_start\<lparr>stack := [[(TInt, [VInt 10])]]\<rparr>) (Stack 0 0) =
       Some (TInt, [VInt 10])
   \<and> dangling_pointer_demo program_start = Inr ((TPtr TInt, VIndet), program_start)
   \<and> bnd (dangling_pointer_demo program_start)
         (\<lambda>(v, s'). bnd (deref v) (\<lambda>target. rvalue target s')) = Inl Undefined"
proof -
  have "stack program_start = []"
    by (simp add: program_start_def)
  then show ?thesis
    using dangling_pointer_demo_body_run [of program_start]
      dangling_pointer_demo_run [of program_start]
    by (simp add: bnd_def deref_def)
qed

text \<open>
  C1 as amended.  No demonstration takes an argument.  Eight demonstrations have return
  type \<open>void\<close>.  Seven of them run to completion from every state on every platform,
  and so does \<open>array_pointer_demo\<close> where \<open>size_t\<close> is \<open>unsigned long\<close>, the type
  its \<open>%lu\<close> conversions take: none of them then executes a rejected or undefined
  construct.  The ninth, \<open>dangling_pointer_demo\<close>, executes its unsafe line: from
  every state the operand of its \<open>return\<close> is the address of its automatic variable
  \<open>local\<close>, which holds 10 while the body runs; the caller receives an indeterminate
  pointer, and dereferencing it is undefined.
\<close>

theorem catalog_contract:
  "(\<exists>t. uninitialized_pointer_demo s = Inr t)
   \<and> (\<exists>t. null_pointer_demo s = Inr t)
   \<and> (\<exists>t. const_pointer_demo s = Inr t)
   \<and> (\<exists>t. pointer_arithmetic_demo s = Inr t)
   \<and> (\<exists>t. void_pointer_demo s = Inr t)
   \<and> (\<exists>t. function_pointer_demo s = Inr t)
   \<and> (\<exists>t. double_pointer_demo s = Inr t)
   \<and> (size_t_is_ulong pf \<longrightarrow> (\<exists>t. array_pointer_demo pf s = Inr t))
   \<and> dangling_pointer_demo_body (enter s) =
       Inr ((TPtr TInt, VPtr (Obj (Stack (length (stack s)) 0) 0)),
            s\<lparr>stack := stack s @ [[(TInt, [VInt 10])]]\<rparr>)
   \<and> lookup (s\<lparr>stack := stack s @ [[(TInt, [VInt 10])]]\<rparr>) (Stack (length (stack s)) 0) =
       Some (TInt, [VInt 10])
   \<and> dangling_pointer_demo s = Inr ((TPtr TInt, VIndet), s)
   \<and> bnd (dangling_pointer_demo s)
         (\<lambda>(v, s'). bnd (deref v) (\<lambda>target. rvalue target s')) = Inl Undefined"
  by (simp add: uninitialized_pointer_demo_run null_pointer_demo_run const_pointer_demo_run
      pointer_arithmetic_demo_run void_pointer_demo_run function_pointer_demo_run
      array_pointer_demo_run double_pointer_demo_run dangling_pointer_demo_body_run
      dangling_pointer_demo_run bnd_def deref_def del: show_nat.simps)

theorem catalog_contract_witness:
  "size_t_is_ulong \<lparr>sizeof_int = 4, sizeof_ptr = 8, size_t_is_ulong = True\<rparr>
   \<and> (\<exists>t. array_pointer_demo \<lparr>sizeof_int = 4, sizeof_ptr = 8, size_t_is_ulong = True\<rparr>
             program_start = Inr t)
   \<and> (\<exists>t. null_pointer_demo program_start = Inr t)
   \<and> dangling_pointer_demo program_start = Inr ((TPtr TInt, VIndet), program_start)"
  using catalog_contract
    [of program_start "\<lparr>sizeof_int = 4, sizeof_ptr = 8, size_t_is_ulong = True\<rparr>"]
  by simp

subsection \<open>C2: pointer arithmetic\<close>

text \<open>
  C2.  In \<open>pointer_arithmetic_demo\<close> the body ends with \<open>arr = {10, 20, 30}\<close> and
  \<open>p\<close> pointing to element 0 of \<open>arr\<close>.  In that state \<open>p + 1\<close> points to element 1
  of \<open>arr\<close>, \<open>*(p + 1)\<close> has the value 20, the second element, and the text the
  call has written is that value in decimal followed by a newline.
\<close>

theorem pointer_arithmetic_demo_prints_second_element:
  "(let f = length (stack s);
        arr = (TArr TInt 3, Obj (Stack f 0) 0);
        p = (TPtr TInt, Obj (Stack f 1) 0);
        s' = s\<lparr>stack := stack s @
                 [[(TArr TInt 3, [VInt 10, VInt 20, VInt 30]),
                   (TPtr TInt, [VPtr (snd arr)])]],
               stdout := stdout s @ ''20'' @ [newline]\<rparr>
    in pointer_arithmetic_demo_body (enter s) = Inr s'
       \<and> rvalue p s' = Inr (TPtr TInt, VPtr (Obj (Stack f 0) 0))
       \<and> ptr_add (TPtr TInt, VPtr (Obj (Stack f 0) 0)) 1 s' =
           Inr (TPtr TInt, VPtr (Obj (Stack f 0) 1))
       \<and> deref (TPtr TInt, VPtr (Obj (Stack f 0) 1)) = Inr (TInt, Obj (Stack f 0) 1)
       \<and> rvalue (TInt, Obj (Stack f 0) 1) s' = Inr (TInt, VInt 20)
       \<and> lookup s' (Stack f 0) = Some (TArr TInt 3, [VInt 10, VInt 20, VInt 30])
       \<and> [VInt 10, VInt 20, VInt 30] ! 1 = VInt 20
       \<and> show_int 20 = ''20'')
   \<and> pointer_arithmetic_demo s = Inr (s\<lparr>stdout := stdout s @ ''20'' @ [newline]\<rparr>)"
  by (simp add: Let_def pointer_arithmetic_demo_body_run pointer_arithmetic_demo_run
      rvalue_def ptr_add_def deref_def load_def bnd_def nth_append show_int_def digit_def)

subsection \<open>C3: the double pointer\<close>

text \<open>
  C3.  Provided the static \<open>x\<close> of \<open>update_pointer\<close> holds its initial value 100, the
  body of \<open>double_pointer_demo\<close> ends, after \<open>update_pointer(&p)\<close> has returned, with
  the caller's \<open>p\<close> holding the address of \<open>x\<close>, which is not the null pointer, and
  \<open>*p\<close> evaluates to 100.
\<close>

theorem double_pointer_demo_redirects:
  assumes "lookup s (Static 0) = Some (TInt, [VInt 100])"
  shows "\<exists>s'. double_pointer_demo_body (enter s) = Inr s'
           \<and> rvalue (TPtr TInt, Obj (Stack (length (stack s)) 0) 0) s' =
               Inr (TPtr TInt, VPtr (snd update_pointer_x))
           \<and> snd update_pointer_x \<noteq> Null
           \<and> bnd (rvalue (TPtr TInt, Obj (Stack (length (stack s)) 0) 0) s')
                 (\<lambda>pv. bnd (deref pv) (\<lambda>target. rvalue target s')) =
               Inr (TInt, VInt 100)"
proof -
  let ?s' = "s\<lparr>stack := stack s @ [[(TPtr TInt, [VPtr (Obj (Static 0) 0)])]]\<rparr>"
  have x_there: "lookup ?s' (Static 0) = Some (TInt, [VInt 100])"
    using assms by (simp split: if_splits)
  have p_val: "rvalue (TPtr TInt, Obj (Stack (length (stack s)) 0) 0) ?s' =
      Inr (TPtr TInt, VPtr (Obj (Static 0) 0))"
    by (simp add: rvalue_def load_def bnd_def)
  have x_val: "rvalue (TInt, Obj (Static 0) 0) ?s' = Inr (TInt, VInt 100)"
    using x_there by (simp add: rvalue_def load_def bnd_def del: lookup.simps)
  have "double_pointer_demo_body (enter s) = Inr ?s'"
    by (rule double_pointer_demo_body_run)
  moreover have "rvalue (TPtr TInt, Obj (Stack (length (stack s)) 0) 0) ?s' =
      Inr (TPtr TInt, VPtr (snd update_pointer_x))"
    using p_val by (simp add: update_pointer_x_def)
  moreover have "snd update_pointer_x \<noteq> Null"
    by (simp add: update_pointer_x_def)
  moreover have "bnd (rvalue (TPtr TInt, Obj (Stack (length (stack s)) 0) 0) ?s')
        (\<lambda>pv. bnd (deref pv) (\<lambda>target. rvalue target ?s')) = Inr (TInt, VInt 100)"
    using p_val x_val by (simp add: bnd_def deref_def)
  ultimately show ?thesis
    by blast
qed

theorem double_pointer_demo_redirects_witness:
  "lookup program_start (Static 0) = Some (TInt, [VInt 100])
   \<and> (\<exists>s'. double_pointer_demo_body (enter program_start) = Inr s'
           \<and> rvalue (TPtr TInt, Obj (Stack 0 0) 0) s' =
               Inr (TPtr TInt, VPtr (snd update_pointer_x))
           \<and> snd update_pointer_x \<noteq> Null
           \<and> bnd (rvalue (TPtr TInt, Obj (Stack 0 0) 0) s')
                 (\<lambda>pv. bnd (deref pv) (\<lambda>target. rvalue target s')) =
               Inr (TInt, VInt 100))"
proof -
  have h: "lookup program_start (Static 0) = Some (TInt, [VInt 100])"
    by (simp add: program_start_def)
  have e: "length (stack program_start) = 0"
    by (simp add: program_start_def)
  show ?thesis
    using h double_pointer_demo_redirects [OF h] unfolding e by blast
qed

subsection \<open>C4: the function pointer\<close>

text \<open>
  C4.  Let \<open>fp\<close> be the only object of the innermost frame, with any content.  For either
  handler \<open>h\<close>, assigning \<open>h\<close> to \<open>fp\<close> and then calling through \<open>fp\<close> leaves
  \<open>fp\<close> holding \<open>h\<close> and appends the text of \<open>h\<close> to the console, \<open>Handler 1\<close>
  or \<open>Handler 2\<close> followed by a newline; the two texts differ.  The whole of
  \<open>function_pointer_demo\<close> appends \<open>Handler 1\<close> and then \<open>Handler 2\<close>, each
  followed by a newline.
\<close>

theorem function_pointer_demo_dispatch:
  "(let fp = (TPtr TFunc, Obj (Stack (length (stack s)) 0) 0);
        s1 = s\<lparr>stack := stack s @ [[(TPtr TFunc, [v0])]]\<rparr>
    in bnd (assign fp (VPtr (Fun h)) s1) (\<lambda>s2.
       bnd (rvalue fp s2) (\<lambda>f.
       call_ptr f s2)) =
       Inr (s\<lparr>stack := stack s @ [[(TPtr TFunc, [VPtr (Fun h)])]],
              stdout := stdout s @
                (case h of Fhandler1 \<Rightarrow> ''Handler 1'' | Fhandler2 \<Rightarrow> ''Handler 2'')
                @ [newline]\<rparr>))
   \<and> ''Handler 1'' @ [newline] \<noteq> ''Handler 2'' @ [newline]
   \<and> function_pointer_demo s =
       Inr (s\<lparr>stdout := stdout s @ ''Handler 1'' @ [newline] @ ''Handler 2'' @ [newline]\<rparr>)"
proof -
  have "''Handler 1'' @ [newline] \<noteq> ''Handler 2'' @ [newline]"
    by simp
  moreover have "function_pointer_demo s =
      Inr (s\<lparr>stdout := stdout s @ ''Handler 1'' @ [newline] @ ''Handler 2'' @ [newline]\<rparr>)"
    by (rule function_pointer_demo_run)
  moreover have "(let fp = (TPtr TFunc, Obj (Stack (length (stack s)) 0) 0);
        s1 = s\<lparr>stack := stack s @ [[(TPtr TFunc, [v0])]]\<rparr>
    in bnd (assign fp (VPtr (Fun h)) s1) (\<lambda>s2.
       bnd (rvalue fp s2) (\<lambda>f.
       call_ptr f s2)) =
       Inr (s\<lparr>stack := stack s @ [[(TPtr TFunc, [VPtr (Fun h)])]],
              stdout := stdout s @
                (case h of Fhandler1 \<Rightarrow> ''Handler 1'' | Fhandler2 \<Rightarrow> ''Handler 2'')
                @ [newline]\<rparr>))"
    by (cases h)
      (simp_all add: Let_def assign_def store_def rvalue_def load_def bnd_def call_ptr_def
        nth_append handler1_run handler2_run)
  ultimately show ?thesis
    by blast
qed

subsection \<open>C5: the size of an array and of a pointer\<close>

text \<open>
  C5 as stated ends: the two sizes differ, as they must for any array of length greater
  than one.  That fails: with a 4-byte \<open>int\<close> and 8-byte pointers, an array of two
  \<open>int\<close> has the size of a pointer to \<open>int\<close>.  Whether an array and a pointer
  differ in size is a matter of the platform's sizes, not of the array being longer than
  one element.
\<close>

theorem sizeof_array_of_two_is_sizeof_pointer:
  "(1::nat) < 2
   \<and> sizeof \<lparr>sizeof_int = 4, sizeof_ptr = 8, size_t_is_ulong = True\<rparr> (TArr TInt 2) =
       sizeof \<lparr>sizeof_int = 4, sizeof_ptr = 8, size_t_is_ulong = True\<rparr> (TPtr TInt)"
  by simp

text \<open>
  C5 as amended.  In \<open>array_pointer_demo\<close>, \<open>arr\<close> has type \<open>int[5]\<close> and \<open>p\<close> has
  type \<open>int *\<close>.  On every platform the size of \<open>arr\<close> is five times the size of
  \<open>int\<close> and the size of \<open>p\<close> is the platform's pointer size, and the two sizes
  differ exactly when the pointer size is not five times the size of \<open>int\<close>.  (Where
  \<open>size_t\<close> is \<open>unsigned long\<close>, the body ends with these two objects in its frame
  and the two sizes written to the console.)
\<close>

theorem array_pointer_demo_sizes:
  "sizeof pf (TArr TInt 5) = Some (5 * sizeof_int pf)
   \<and> sizeof pf (TPtr TInt) = Some (sizeof_ptr pf)
   \<and> (sizeof pf (TArr TInt 5) \<noteq> sizeof pf (TPtr TInt)) = (sizeof_ptr pf \<noteq> 5 * sizeof_int pf)
   \<and> (size_t_is_ulong pf \<longrightarrow>
        array_pointer_demo_body pf (enter s) =
          Inr (s\<lparr>stack := stack s @
                 [[(TArr TInt 5, [VIndet, VIndet, VIndet, VIndet, VIndet]),
                   (TPtr TInt, [VPtr (Obj (Stack (length (stack s)) 0) 0)])]],
                 stdout := stdout s @ show_nat (5 * sizeof_int pf) @ [newline]
                             @ show_nat (sizeof_ptr pf) @ [newline]\<rparr>))"
  by (auto simp: array_pointer_demo_body_run simp del: show_nat.simps)

text \<open>
  The instances for 8-byte pointers with a 4-byte \<open>int\<close> (sizes 20 and 8), together
  with the state in which the body then ends when called at program start.
\<close>

theorem array_pointer_demo_sizes_witness:
  "size_t_is_ulong \<lparr>sizeof_int = 4, sizeof_ptr = 8, size_t_is_ulong = True\<rparr>
   \<and> sizeof \<lparr>sizeof_int = 4, sizeof_ptr = 8, size_t_is_ulong = True\<rparr> (TArr TInt 5) = Some 20
   \<and> sizeof \<lparr>sizeof_int = 4, sizeof_ptr = 8, size_t_is_ulong = True\<rparr> (TPtr TInt) = Some 8
   \<and> sizeof \<lparr>sizeof_int = 4, sizeof_ptr = 8, size_t_is_ulong = True\<rparr> (TArr TInt 5) \<noteq>
       sizeof \<lparr>sizeof_int = 4, sizeof_ptr = 8, size_t_is_ulong = True\<rparr> (TPtr TInt)
   \<and> array_pointer_demo_body \<lparr>sizeof_int = 4, sizeof_ptr = 8, size_t_is_ulong = True\<rparr>
         (enter program_start) =
       Inr (program_start\<lparr>stack :=
              [[(TArr TInt 5, [VIndet, VIndet, VIndet, VIndet, VIndet]),
                (TPtr TInt, [VPtr (Obj (Stack 0 0) 0)])]],
              stdout := ''20'' @ [newline] @ ''8'' @ [newline]\<rparr>)"
proof -
  have shown: "show_nat 20 = ''20''" "show_nat 8 = ''8''"
    by (simp_all add: digit_def)
  have start: "stdout program_start = []" "stack program_start = []"
    by (simp_all add: program_start_def)
  show ?thesis
    using array_pointer_demo_sizes
      [of "\<lparr>sizeof_int = 4, sizeof_ptr = 8, size_t_is_ulong = True\<rparr>" program_start]
    by (simp add: shown start del: show_nat.simps)
qed

subsection \<open>C6: pointer to const and const pointer\<close>

text \<open>
  C6.  In \<open>const_pointer_demo\<close> the four declarations give the state \<open>s4\<close>.  There
  \<open>p1 = &b\<close> succeeds and gives \<open>s5\<close>, while \<open>*p1 = 5\<close> is rejected.  In \<open>s5\<close>
  the write \<open>*p2 = 15\<close> succeeds and gives \<open>s6\<close>, the state in which the body ends:
  \<open>a\<close> is 15 and \<open>p1\<close> points to \<open>b\<close>.  There \<open>p2 = &b\<close> is rejected.
\<close>

theorem const_pointer_demo_const_rules:
  "(let f = length (stack s);
        a = (TInt, Obj (Stack f 0) 0);
        b = (TInt, Obj (Stack f 1) 0);
        p1 = (TPtr (TConst TInt), Obj (Stack f 2) 0);
        p2 = (TConst (TPtr TInt), Obj (Stack f 3) 0);
        s4 = s\<lparr>stack := stack s @
                 [[(TInt, [VInt 10]), (TInt, [VInt 20]),
                   (TPtr (TConst TInt), [VPtr (snd a)]),
                   (TConst (TPtr TInt), [VPtr (snd a)])]]\<rparr>;
        s5 = s\<lparr>stack := stack s @
                 [[(TInt, [VInt 10]), (TInt, [VInt 20]),
                   (TPtr (TConst TInt), [VPtr (snd b)]),
                   (TConst (TPtr TInt), [VPtr (snd a)])]]\<rparr>;
        s6 = s\<lparr>stack := stack s @
                 [[(TInt, [VInt 15]), (TInt, [VInt 20]),
                   (TPtr (TConst TInt), [VPtr (snd b)]),
                   (TConst (TPtr TInt), [VPtr (snd a)])]]\<rparr>
    in (let (a', s1) = decl TInt [VInt 10] (enter s);
            (b', s2) = decl TInt [VInt 20] s1;
            (p1', s3) = decl (TPtr (TConst TInt)) [snd (addr_of a')] s2;
            (p2', s4') = decl (TConst (TPtr TInt)) [snd (addr_of a')] s3
        in (a', b', p1', p2', s4')) = (a, b, p1, p2, s4)
       \<and> assign p1 (snd (addr_of b)) s4 = Inr s5
       \<and> bnd (rvalue p1 s4) (\<lambda>p1v. bnd (deref p1v) (\<lambda>target. assign target (VInt 5) s4)) =
           Inl Rejected
       \<and> bnd (rvalue p2 s5) (\<lambda>p2v. bnd (deref p2v) (\<lambda>target. assign target (VInt 15) s5)) =
           Inr s6
       \<and> assign p2 (snd (addr_of b)) s6 = Inl Rejected
       \<and> const_pointer_demo_body (enter s) = Inr s6
       \<and> rvalue a s6 = Inr (TInt, VInt 15)
       \<and> rvalue p1 s6 = Inr (TPtr (TConst TInt), VPtr (snd b)))"
  by (simp add: Let_def const_pointer_demo_body_run [unfolded enter_def] machine_defs)

subsection \<open>C7: the guarded write through a null pointer\<close>

text \<open>
  C7.  In \<open>null_pointer_demo\<close> the declaration gives the state \<open>s1\<close>, where \<open>ptr\<close>
  is the null pointer.  The body ends in that same state: the guard is false and nothing
  is written.  The write it guards would be undefined there.  The call returns the state
  it was made in.
\<close>

theorem null_pointer_demo_writes_nothing:
  "(let ptr = (TPtr TInt, Obj (Stack (length (stack s)) 0) 0);
        s1 = s\<lparr>stack := stack s @ [[(TPtr TInt, [VPtr Null])]]\<rparr>
    in decl (TPtr TInt) [VPtr Null] (enter s) = (ptr, s1)
       \<and> rvalue ptr s1 = Inr (TPtr TInt, VPtr Null)
       \<and> null_pointer_demo_body (enter s) = Inr s1
       \<and> bnd (rvalue ptr s1) (\<lambda>p. bnd (deref p) (\<lambda>target. assign target (VInt 10) s1)) =
           Inl Undefined)
   \<and> null_pointer_demo s = Inr s"
  by (simp add: Let_def null_pointer_demo_body_run [unfolded enter_def] null_pointer_demo_run machine_defs)

subsection \<open>C8: the uninitialised pointer\<close>

text \<open>
  C8 as stated: the executed form initialises the pointer to a null sentinel before any
  use.  This fails on the code: the only executed line of \<open>uninitialized_pointer_demo\<close>
  is \<open>int *ptr;\<close>, and at the end of the body, called at program start, \<open>ptr\<close> is
  indeterminate, not null.
\<close>

theorem uninitialized_pointer_demo_not_null:
  "uninitialized_pointer_demo_body (enter program_start) =
     Inr (program_start\<lparr>stack := [[(TPtr TInt, [VIndet])]]\<rparr>)
   \<and> lookup (program_start\<lparr>stack := [[(TPtr TInt, [VIndet])]]\<rparr>) (Stack 0 0) =
       Some (TPtr TInt, [VIndet])
   \<and> VIndet \<noteq> VPtr Null"
proof -
  have "stack program_start = []"
    by (simp add: program_start_def)
  then show ?thesis
    using uninitialized_pointer_demo_body_run [of program_start] by simp
qed

text \<open>
  C8 as amended.  \<open>uninitialized_pointer_demo\<close> declares \<open>ptr\<close> without an
  initialiser and never initialises it: the body ends with \<open>ptr\<close> indeterminate, where
  reading \<open>ptr\<close> would be undefined.  The function never uses \<open>ptr\<close>: from every state
  the call completes and returns the state it was made in, so no indeterminate address
  is accessed.
\<close>

theorem uninitialized_pointer_demo_unused:
  "(let ptr = (TPtr TInt, Obj (Stack (length (stack s)) 0) 0);
        s1 = s\<lparr>stack := stack s @ [[(TPtr TInt, [VIndet])]]\<rparr>
    in decl (TPtr TInt) [VIndet] (enter s) = (ptr, s1)
       \<and> uninitialized_pointer_demo_body (enter s) = Inr s1
       \<and> rvalue ptr s1 = Inl Undefined)
   \<and> uninitialized_pointer_demo s = Inr s"
  by (simp add: Let_def uninitialized_pointer_demo_body_run [unfolded enter_def] uninitialized_pointer_demo_run
      machine_defs)

subsection \<open>C9: no state carried from one demonstration to another\<close>



subsection \<open>C10: the void pointer\<close>

text \<open>
  C10.  In \<open>void_pointer_demo\<close> the body ends with \<open>a = 10\<close> and \<open>vp\<close> holding the
  address of \<open>a\<close>.  In that state \<open>*vp\<close> is rejected, \<open>*(int *)vp\<close> has the value
  of \<open>a\<close>, which is 10, and the text the call has written is 10 in decimal followed by
  a newline.
\<close>

theorem void_pointer_demo_prints_original:
  "(let f = length (stack s);
        a = (TInt, Obj (Stack f 0) 0);
        vp = (TPtr TVoid, Obj (Stack f 1) 0);
        s' = s\<lparr>stack := stack s @
                 [[(TInt, [VInt 10]), (TPtr TVoid, [VPtr (snd a)])]],
               stdout := stdout s @ ''10'' @ [newline]\<rparr>
    in void_pointer_demo_body (enter s) = Inr s'
       \<and> rvalue a s' = Inr (TInt, VInt 10)
       \<and> rvalue vp s' = Inr (TPtr TVoid, VPtr (snd a))
       \<and> bnd (rvalue vp s') (\<lambda>vpv. deref vpv) = Inl Rejected
       \<and> bnd (rvalue vp s') (\<lambda>vpv.
           bnd (deref (cast (TPtr TInt) vpv)) (\<lambda>target. rvalue target s')) =
           Inr (TInt, VInt 10)
       \<and> show_int 10 = ''10'')
   \<and> void_pointer_demo s = Inr (s\<lparr>stdout := stdout s @ ''10'' @ [newline]\<rparr>)"
  by (simp add: Let_def void_pointer_demo_body_run [unfolded enter_def] void_pointer_demo_run machine_defs
      show_int_def digit_def)


end
